theory Spec2Isabelle
  imports Main
begin

section \<open>Customer account handlers (src/controllers/CustomerController.ts)\<close>

text \<open>
  The six request handlers of the controller are embedded as functions from the
  collaborators' answers, the state (the Customer collection and the SMS messages sent so
  far) and the request to the response and the new state. Each \<^verbatim>\<open>await\<close> is a
  sequential step; the handlers run one at a time. The collaborators are taken not to
  throw, so the \<^verbatim>\<open>catch\<close> branches of CustomerSignUp and CustomerVerify, which
  only forward an exception to the framework, have nothing to forward; a creation that
  does not succeed gives the handler no document.
\<close>

subsection \<open>Data\<close>

type_synonym oid = nat

text \<open>
  The Customer document. \<open>customer_id\<close> is the field \<^verbatim>\<open>_id\<close>; \<open>otpExpiry\<close> is a
  Date, kept as its time value (milliseconds), which is what \<^verbatim>\<open>>=\<close> compares;
  \<open>otp\<close>, \<open>lat\<close> and \<open>lng\<close> are Numbers that hold integers here.
\<close>

record customer =
  customer_id :: oid
  email :: string
  password :: string
  salt :: string
  phone :: string
  otp :: int
  otpExpiry :: int
  verified :: bool
  firstName :: string
  lastName :: string
  address :: string
  lat :: int
  lng :: int

text \<open>The request bodies, after \<^verbatim>\<open>plainToClass\<close>: fields \<^verbatim>\<open>email\<close>,
  \<^verbatim>\<open>phone\<close>, \<^verbatim>\<open>password\<close> of the signup body, and so on.\<close>

record CreateCustomerInput =
  new_email :: string
  new_phone :: string
  new_password :: string

record CustomerLoginInput =
  login_email :: string
  login_password :: string

record CustomerEditInput =
  edit_firstName :: string
  edit_lastName :: string
  edit_address :: string

text \<open>The payload of a token, also what the auth middleware leaves in \<^verbatim>\<open>req.user\<close>:
  \<^verbatim>\<open>{_id, email, verified}\<close>.\<close>

record AuthPayload =
  user_id :: oid
  user_email :: string
  user_verified :: bool

text \<open>The value of \<^verbatim>\<open>req.body.otp\<close>, which no validator looks at: absent, a string
  or an integer number.\<close>

datatype jsvalue = Undefined | Str string | Num int

text \<open>
  The JSON bodies of the answers: the list of field errors of a validator; an object
  \<^verbatim>\<open>{message}\<close>; an object \<^verbatim>\<open>{signature, verified, email}\<close>, as
  \<open>Session signature verified email\<close>; a Customer document.
\<close>

datatype reply =
    Errors "string list"
  | Message string
  | Session string bool string
  | Profile customer

record response =
  status :: nat
  body :: reply

text \<open>
  What the handlers call and do not define, taken as parameters.

  From \<^verbatim>\<open>../dto\<close>, \<^verbatim>\<open>../utility\<close> and the validation library: the validators
  give the list of field errors of a body; \<open>GeneratePassword\<close>, \<open>ValidatePassword\<close>
  and \<open>GenerateSignature\<close> are functions of their arguments; \<open>GenerateSalt\<close> and
  \<open>GenerateOtp\<close> are the values the random generators return during this request
  (\<open>GenerateOtp\<close> the pair \<^verbatim>\<open>{otp, expiry}\<close>), and \<open>now\<close> is the time value of
  \<^verbatim>\<open>new Date()\<close>.

  From the language: \<open>toLowerCase\<close> is \<^verbatim>\<open>String.prototype.toLowerCase\<close>, with all
  of its case mapping; \<open>parseInt\<close> is the global \<^verbatim>\<open>parseInt\<close> called with one
  argument, with all of its white space, its radix prefix and its rounding: \<open>Some n\<close>
  when the Number it returns is the integer \<open>n\<close>, \<open>None\<close> when it returns NaN or an
  infinity, neither of which \<^verbatim>\<open>===\<close> any stored code.

  From the store: \<open>create_succeeds\<close> tells whether the creation asked for during this
  request succeeds.
\<close>

record deps =
  validate_CreateCustomerInput :: "CreateCustomerInput \<Rightarrow> string list"
  validate_CustomerLoginInput :: "CustomerLoginInput \<Rightarrow> string list"
  validate_CustomerEditInput :: "CustomerEditInput \<Rightarrow> string list"
  GenerateSalt :: string
  GeneratePassword :: "string \<Rightarrow> string \<Rightarrow> string"
  ValidatePassword :: "string \<Rightarrow> string \<Rightarrow> bool"
  GenerateOtp :: "int \<times> int"
  GenerateSignature :: "AuthPayload \<Rightarrow> string"
  now :: int
  toLowerCase :: "string \<Rightarrow> string"
  parseInt :: "jsvalue \<Rightarrow> int option"
  create_succeeds :: bool

record state =
  customers :: "customer list"
  outbox :: "(int \<times> string) list"

subsection \<open>The Customer collection\<close>

text \<open>
  Modelled from the spec: the model \<^verbatim>\<open>Customer\<close> (\<^verbatim>\<open>../models\<close>) is the document
  store accessor, with \<^verbatim>\<open>findOne(filter)\<close>, \<^verbatim>\<open>findById(id)\<close>,
  \<^verbatim>\<open>create(doc)\<close> and \<^verbatim>\<open>save(doc)\<close> on a Customer collection. The collection is
  the list of its documents in insertion order; a lookup returns the first match; the
  identity is store-assigned and unique; a \<^verbatim>\<open>create\<close> that succeeds stores the
  document under a new identity and returns it, one that does not succeed stores nothing
  and gives no document (the handler tests the result);
  \<^verbatim>\<open>save\<close> writes the document back in place of the stored one of the same identity
  and returns it; the email is not a storage-level constraint.
\<close>

definition findOne :: "customer list \<Rightarrow> string \<Rightarrow> customer option" where
  "findOne cs e = find (\<lambda>c. email c = e) cs"

definition findById :: "customer list \<Rightarrow> oid \<Rightarrow> customer option" where
  "findById cs i = find (\<lambda>c. customer_id c = i) cs"

definition fresh_id :: "customer list \<Rightarrow> oid" where
  "fresh_id cs = Suc (fold max (map customer_id cs) 0)"

definition create ::
  "bool \<Rightarrow> customer list \<Rightarrow> customer \<Rightarrow> customer option \<times> customer list" where
  "create succeeds cs doc =
     (if succeeds then (let c = doc\<lparr>customer_id := fresh_id cs\<rparr> in (Some c, cs @ [c]))
      else (None, cs))"

fun replace :: "customer list \<Rightarrow> customer \<Rightarrow> customer list" where
  "replace [] p = []"
| "replace (c # cs) p = (if customer_id c = customer_id p then p # cs else c # replace cs p)"

definition save :: "customer list \<Rightarrow> customer \<Rightarrow> customer \<times> customer list" where
  "save cs p = (p, replace cs p)"

text \<open>\<^verbatim>\<open>SendOtp(otp, phone)\<close> hands the code to the SMS provider: the message joins
  those sent.\<close>

definition SendOtp :: "int \<Rightarrow> string \<Rightarrow> state \<Rightarrow> state" where
  "SendOtp code to s = s\<lparr>outbox := outbox s @ [(code, to)]\<rparr>"

definition respond :: "nat \<Rightarrow> reply \<Rightarrow> response" where
  "respond n b = \<lparr>status = n, body = b\<rparr>"

subsection \<open>The handlers\<close>

definition CustomerSignUp :: "deps \<Rightarrow> state \<Rightarrow> CreateCustomerInput \<Rightarrow> response \<times> state" where
  "CustomerSignUp d s b =
     (let inputErrors = validate_CreateCustomerInput d b in
      if length inputErrors > 0 then (respond 400 (Errors inputErrors), s)
      else
        (case findOne (customers s) (toLowerCase d (new_email b)) of
           Some existingCustomer \<Rightarrow>
             (respond 400 (Message ''This email address is already in use!''), s)
         | None \<Rightarrow>
             (let salt' = GenerateSalt d;
                  userPassword = GeneratePassword d (new_password b) salt';
                  (otp', expiry) = GenerateOtp d;
                  (createdCustomer, cs) = create (create_succeeds d) (customers s)
                     \<lparr>customer_id = 0, email = toLowerCase d (new_email b),
                      password = userPassword, salt = salt', phone = new_phone b,
                      otp = otp', otpExpiry = expiry, verified = False,
                      firstName = '''', lastName = '''', address = '''', lat = 0, lng = 0\<rparr>;
                  s1 = s\<lparr>customers := cs\<rparr>
              in case createdCustomer of
                   Some c \<Rightarrow>
                     (let s2 = SendOtp otp' (new_phone b) s1;
                          signature = GenerateSignature d
                            \<lparr>user_id = customer_id c, user_email = email c,
                             user_verified = verified c\<rparr>
                      in (respond 201 (Session signature (verified c) (email c)), s2))
                 | None \<Rightarrow> (respond 400 (Message ''Error while signing up!''), s1))))"

definition CustomerLogin :: "deps \<Rightarrow> state \<Rightarrow> CustomerLoginInput \<Rightarrow> response \<times> state" where
  "CustomerLogin d s b =
     (let loginErrors = validate_CustomerLoginInput d b in
      if length loginErrors > 0 then (respond 400 (Errors loginErrors), s)
      else
        (case findOne (customers s) (login_email b) of
           Some c \<Rightarrow>
             if ValidatePassword d (login_password b) (password c)
             then (respond 200
                     (Session (GenerateSignature d
                        \<lparr>user_id = customer_id c, user_email = email c,
                         user_verified = verified c\<rparr>) (verified c) (email c)), s)
             else (respond 400 (Message ''Invalid credentials!''), s)
         | None \<Rightarrow> (respond 400 (Message ''Invalid credentials!''), s)))"

definition CustomerVerify :: "deps \<Rightarrow> state \<Rightarrow> AuthPayload option \<Rightarrow> jsvalue \<Rightarrow> response \<times> state" where
  "CustomerVerify d s user otp' =
     (case user of
        Some u \<Rightarrow>
          (case findById (customers s) (user_id u) of
             Some profile \<Rightarrow>
               if Some (otp profile) = parseInt d otp' \<and> otpExpiry profile \<ge> now d
               then
                 (let (updatedProfile, cs) = save (customers s) (profile\<lparr>verified := True\<rparr>);
                      signature = GenerateSignature d
                        \<lparr>user_id = customer_id updatedProfile, user_email = email updatedProfile,
                         user_verified = verified updatedProfile\<rparr>
                  in (respond 200
                        (Session signature (verified updatedProfile) (email updatedProfile)),
                      s\<lparr>customers := cs\<rparr>))
               else (respond 400 (Message ''OPT verification failed!''), s)
           | None \<Rightarrow> (respond 400 (Message ''OPT verification failed!''), s))
      | None \<Rightarrow> (respond 400 (Message ''OPT verification failed!''), s))"

definition RequestOtp :: "deps \<Rightarrow> state \<Rightarrow> AuthPayload option \<Rightarrow> response \<times> state" where
  "RequestOtp d s user =
     (case user of
        Some u \<Rightarrow>
          (case findById (customers s) (user_id u) of
             Some profile \<Rightarrow>
               (let (otp', expiry) = GenerateOtp d;
                    profile1 = profile\<lparr>otp := otp', otpExpiry := expiry\<rparr>;
                    (saved, cs) = save (customers s) profile1;
                    s1 = SendOtp otp' (phone profile1) (s\<lparr>customers := cs\<rparr>)
                in (respond 200 (Message ''OTP sent to your registered phone number.''), s1))
           | None \<Rightarrow> (respond 400 (Message ''Error generateing OTP!''), s))
      | None \<Rightarrow> (respond 400 (Message ''Error generateing OTP!''), s))"

definition GetCustomerProfile :: "state \<Rightarrow> AuthPayload option \<Rightarrow> response \<times> state" where
  "GetCustomerProfile s user =
     (case user of
        Some u \<Rightarrow>
          (case findById (customers s) (user_id u) of
             Some profile \<Rightarrow> (respond 200 (Profile profile), s)
           | None \<Rightarrow> (respond 400 (Message ''Error getting user profile!''), s))
      | None \<Rightarrow> (respond 400 (Message ''Error getting user profile!''), s))"

definition UpdateCustomerProfile ::
  "deps \<Rightarrow> state \<Rightarrow> AuthPayload option \<Rightarrow> CustomerEditInput \<Rightarrow> response \<times> state" where
  "UpdateCustomerProfile d s user b =
     (case user of
        Some u \<Rightarrow>
          (case findById (customers s) (user_id u) of
             Some profile \<Rightarrow>
               (let inputErrors = validate_CustomerEditInput d b in
                if length inputErrors > 0 then (respond 400 (Errors inputErrors), s)
                else
                  (let (updatedProfile, cs) = save (customers s)
                         (profile\<lparr>firstName := edit_firstName b, lastName := edit_lastName b,
                                  address := edit_address b\<rparr>)
                   in (respond 200 (Profile updatedProfile), s\<lparr>customers := cs\<rparr>)))
           | None \<Rightarrow> (respond 400 (Message ''Error updating profile!''), s))
      | None \<Rightarrow> (respond 400 (Message ''Error updating profile!''), s))"

subsection \<open>Sequences of requests\<close>

text \<open>A request names its handler and carries what the handler reads: \<^verbatim>\<open>req.user\<close>
  and \<^verbatim>\<open>req.body\<close>.\<close>

datatype request =
    SignUp CreateCustomerInput
  | Login CustomerLoginInput
  | VerifyOtp "AuthPayload option" jsvalue
  | ReqOtp "AuthPayload option"
  | GetProfile "AuthPayload option"
  | UpdateProfile "AuthPayload option" CustomerEditInput

fun handle :: "deps \<Rightarrow> state \<Rightarrow> request \<Rightarrow> response \<times> state" where
  "handle d s (SignUp b) = CustomerSignUp d s b"
| "handle d s (Login b) = CustomerLogin d s b"
| "handle d s (VerifyOtp user v) = CustomerVerify d s user v"
| "handle d s (ReqOtp user) = RequestOtp d s user"
| "handle d s (GetProfile user) = GetCustomerProfile s user"
| "handle d s (UpdateProfile user b) = UpdateCustomerProfile d s user b"

text \<open>The state after a sequence of requests, each served with the collaborators'
  answers of its own moment.\<close>

fun run :: "state \<Rightarrow> (deps \<times> request) list \<Rightarrow> state" where
  "run s [] = s"
| "run s ((d, r) # rs) = run (snd (handle d s r)) rs"

definition is_verified :: "state \<Rightarrow> oid \<Rightarrow> bool" where
  "is_verified s i = (case findById (customers s) i of Some p \<Rightarrow> verified p | None \<Rightarrow> False)"

text \<open>The number of requests of a sequence that take the flag of record \<open>i\<close> from not
  set to set.\<close>

fun flips :: "oid \<Rightarrow> state \<Rightarrow> (deps \<times> request) list \<Rightarrow> nat" where
  "flips i s [] = 0"
| "flips i s ((d, r) # rs) =
     (if \<not> is_verified s i \<and> is_verified (snd (handle d s r)) i then 1 else 0)
       + flips i (snd (handle d s r)) rs"

subsection \<open>A concrete instance\<close>

text \<open>
  A lower-casing and a reading of integers to evaluate the handlers with. They are the
  language's on strings of ASCII characters: \<open>ascii_toLowerCase\<close> lowers the letters A to
  Z; \<open>ascii_parseInt\<close> takes the string of the value, drops leading tabs, line feeds,
  vertical tabs, form feeds, carriage returns and spaces, reads an optional sign, an
  optional \<^verbatim>\<open>0x\<close> (then radix 16) and the longest run of digits of the radix, and
  gives \<open>None\<close> when there is no digit. Neither knows the characters beyond ASCII, and
  the integer read is exact, as the language's is below \<open>2 ^ 53\<close>; the examples stay
  within both.
\<close>

definition lower_char :: "char \<Rightarrow> char" where
  "lower_char c =
     (let n = (of_char c :: nat) in if 65 \<le> n \<and> n \<le> 90 then char_of (n + 32) else c)"

definition ascii_toLowerCase :: "string \<Rightarrow> string" where
  "ascii_toLowerCase s = map lower_char s"

fun digits :: "nat \<Rightarrow> string" where
  "digits n = (if n < 10 then [char_of (48 + n)] else digits (n div 10) @ [char_of (48 + n mod 10)])"

declare digits.simps [simp del]

fun decimal_string :: "jsvalue \<Rightarrow> string" where
  "decimal_string Undefined = ''undefined''"
| "decimal_string (Str s) = s"
| "decimal_string (Num n) = (if n < 0 then CHR ''-'' # digits (nat (- n)) else digits (nat n))"

definition is_space :: "char \<Rightarrow> bool" where
  "is_space c = ((of_char c :: nat) \<in> {9, 10, 11, 12, 13, 32})"

definition digit_val :: "nat \<Rightarrow> char \<Rightarrow> nat option" where
  "digit_val R c =
     (let n = (of_char c :: nat);
          v = (if 48 \<le> n \<and> n \<le> 57 then n - 48
               else if 97 \<le> n \<and> n \<le> 122 then n - 87
               else if 65 \<le> n \<and> n \<le> 90 then n - 55
               else R)
      in if v < R then Some v else None)"

fun parse_digits :: "nat \<Rightarrow> string \<Rightarrow> nat option \<Rightarrow> nat option" where
  "parse_digits R [] acc = acc"
| "parse_digits R (c # cs) acc =
     (case digit_val R c of
        None \<Rightarrow> acc
      | Some v \<Rightarrow> parse_digits R cs (Some (R * (case acc of None \<Rightarrow> 0 | Some a \<Rightarrow> a) + v)))"

definition ascii_parseInt :: "jsvalue \<Rightarrow> int option" where
  "ascii_parseInt v =
     (let S = dropWhile is_space (decimal_string v);
          sign = (if take 1 S = ''-'' then - 1 else 1 :: int);
          S = (if take 1 S = ''-'' \<or> take 1 S = ''+'' then drop 1 S else S);
          R = (if take 2 S = ''0x'' \<or> take 2 S = ''0X'' then 16 else 10);
          S = (if R = 16 then drop 2 S else S)
      in map_option (\<lambda>n. sign * int n) (parse_digits R S None))"

text \<open>
  Collaborators to evaluate the handlers with: validators that want an \<^verbatim>\<open>@\<close> in the
  email and non-empty fields, a password hash that is the salt followed by the password,
  a token that spells its payload out, the code 123456 valid until time 1800000, the
  clock at \<open>t\<close>, the two functions above, and a store whose creations succeed.
\<close>

definition sample_signature :: "AuthPayload \<Rightarrow> string" where
  "sample_signature u =
     ''jwt/'' @ digits (user_id u) @ ''/'' @ user_email u @ (if user_verified u then ''/1'' else ''/0'')"

definition sample_deps :: "int \<Rightarrow> deps" where
  "sample_deps t =
     \<lparr>validate_CreateCustomerInput = (\<lambda>b.
        (if CHR ''@'' \<in> set (new_email b) then [] else [''email must be an email'']) @
        (if new_phone b = [] then [''phone should not be empty''] else []) @
        (if new_password b = [] then [''password should not be empty''] else [])),
      validate_CustomerLoginInput = (\<lambda>b.
        (if CHR ''@'' \<in> set (login_email b) then [] else [''email must be an email'']) @
        (if login_password b = [] then [''password should not be empty''] else [])),
      validate_CustomerEditInput = (\<lambda>b.
        (if edit_firstName b = [] then [''firstName should not be empty''] else [])),
      GenerateSalt = ''s4lt'',
      GeneratePassword = (\<lambda>p s. s @ p),
      ValidatePassword = (\<lambda>p h. h = ''s4lt'' @ p),
      GenerateOtp = (123456, 1800000),
      GenerateSignature = sample_signature,
      now = t,
      toLowerCase = ascii_toLowerCase,
      parseInt = ascii_parseInt,
      create_succeeds = True\<rparr>"

definition empty_state :: state where
  "empty_state = \<lparr>customers = [], outbox = []\<rparr>"

text \<open>The signup of the example: email \<^verbatim>\<open>A@x.com\<close>, phone \<^verbatim>\<open>555\<close>, password
  \<^verbatim>\<open>pw\<close>; the record it creates, with identity 1; and that customer's token payload.\<close>

definition signup_A :: CreateCustomerInput where
  "signup_A = \<lparr>new_email = ''A@x.com'', new_phone = ''555'', new_password = ''pw''\<rparr>"

definition customer_a :: customer where
  "customer_a =
     \<lparr>customer_id = 1, email = ''a@x.com'', password = ''s4ltpw'', salt = ''s4lt'',
      phone = ''555'', otp = 123456, otpExpiry = 1800000, verified = False,
      firstName = [], lastName = [], address = [], lat = 0, lng = 0\<rparr>"

definition user_a :: AuthPayload where
  "user_a = \<lparr>user_id = 1, user_email = ''a@x.com'', user_verified = False\<rparr>"

definition state_a :: state where
  "state_a = \<lparr>customers = [customer_a], outbox = [(123456, ''555'')]\<rparr>"

text \<open>The state once that customer has verified the phone with the code sent, at time
  1000.\<close>

definition state_a_verified :: state where
  "state_a_verified =
     snd (CustomerVerify (sample_deps 1000) state_a (Some user_a) (Str ''123456''))"

text \<open>The second signup of the example, email \<^verbatim>\<open>a@X.com\<close>.\<close>

definition signup_a_again :: CreateCustomerInput where
  "signup_a_again = \<lparr>new_email = ''a@X.com'', new_phone = ''555'', new_password = ''pw''\<rparr>"

text \<open>A sequence of requests by that customer: signup, a wrong code, the right code, a
  login, a new code requested, the old code again, a profile update, a profile read and a
  second signup with the same email.\<close>

definition sample_requests :: "(deps \<times> request) list" where
  "sample_requests =
     [(sample_deps 1000, SignUp signup_A),
      (sample_deps 1100, VerifyOtp (Some user_a) (Str ''000000'')),
      (sample_deps 1200, VerifyOtp (Some user_a) (Num 123456)),
      (sample_deps 1300, Login \<lparr>login_email = ''a@x.com'', login_password = ''pw''\<rparr>),
      (sample_deps 1400\<lparr>GenerateOtp := (654321, 1801400)\<rparr>,
         ReqOtp (Some (user_a\<lparr>user_verified := True\<rparr>))),
      (sample_deps 1500, VerifyOtp (Some (user_a\<lparr>user_verified := True\<rparr>)) (Str ''123456'')),
      (sample_deps 1600, UpdateProfile (Some (user_a\<lparr>user_verified := True\<rparr>))
         \<lparr>edit_firstName = ''Ann'', edit_lastName = ''Lee'', edit_address = []\<rparr>),
      (sample_deps 1700, GetProfile (Some (user_a\<lparr>user_verified := True\<rparr>))),
      (sample_deps 1800, SignUp signup_a_again)]"

section \<open>Properties\<close>

subsection \<open>Lookups in the collection\<close>

lemmas sample_simps =
  sample_deps_def sample_signature_def empty_state_def signup_A_def customer_a_def
  user_a_def state_a_def

lemmas eval_simps =
  findOne_def findById_def ascii_toLowerCase_def lower_char_def create_def fresh_id_def
  save_def SendOtp_def respond_def ascii_parseInt_def is_space_def digit_val_def digits.simps
  char_of_def
  bit_Suc_0_iff Let_def

lemma findById_Some_id: "findById cs i = Some p \<Longrightarrow> customer_id p = i"
  by (auto simp: findById_def find_Some_iff)

lemma findById_replace:
  "findById (replace cs p) j =
     (if j = customer_id p \<and> findById cs j \<noteq> None then Some p else findById cs j)"
  by (induction cs) (auto simp: findById_def)

lemma findById_append:
  "findById (cs @ [c]) j =
     (case findById cs j of Some p \<Rightarrow> Some p | None \<Rightarrow> if customer_id c = j then Some c else None)"
  by (induction cs) (auto simp: findById_def)

lemma fold_max_ge: "(a::nat) \<le> fold max xs a"
proof (induction xs arbitrary: a)
  case Nil
  show ?case by simp
next
  case (Cons x xs)
  have "a \<le> max x a" by simp
  also have "\<dots> \<le> fold max xs (max x a)" by (rule Cons.IH)
  finally show ?case by simp
qed

lemma fold_max_mem: "x \<in> set xs \<Longrightarrow> (x::nat) \<le> fold max xs a"
proof (induction xs arbitrary: a)
  case Nil
  then show ?case by simp
next
  case (Cons y ys)
  show ?case
  proof (cases "x = y")
    case True
    have "x \<le> max y a" using True by simp
    also have "\<dots> \<le> fold max ys (max y a)" by (rule fold_max_ge)
    finally show ?thesis by simp
  next
    case False
    with Cons.prems have "x \<in> set ys" by simp
    then show ?thesis using Cons.IH by simp
  qed
qed

lemma findById_fresh_id: "findById cs (fresh_id cs) = None"
proof -
  have "customer_id c \<noteq> fresh_id cs" if "c \<in> set cs" for c
  proof -
    from that have "customer_id c \<in> set (map customer_id cs)" by simp
    then have "customer_id c \<le> fold max (map customer_id cs) 0" by (rule fold_max_mem)
    then show ?thesis by (simp add: fresh_id_def)
  qed
  then show ?thesis by (auto simp: findById_def find_None_iff)
qed

lemma state_a_verified_eq:
  "state_a_verified =
     \<lparr>customers = [customer_a\<lparr>verified := True\<rparr>], outbox = [(123456, ''555'')]\<rparr>"
  by (simp add: state_a_verified_def CustomerVerify_def sample_simps eval_simps)

subsection \<open>CustomerVerify\<close>

text \<open>
  Claim C1. For an authenticated caller whose profile \<open>p\<close> exists, CustomerVerify answers
  200 if and only if the submitted otp, parsed as an integer, equals the stored otp and the
  current time is at or before the stored otpExpiry. Then the answer carries the token
  signed for the record's id and email with verified true, and the stored record is \<open>p\<close>
  with verified set to true. In every other case the answer is 400 with the message
  \<^verbatim>\<open>OPT verification failed!\<close> and the state is the one before, so that a stored
  verified flag that is false remains false.
\<close>

theorem CustomerVerify_decision:
  assumes "findById (customers s) (user_id u) = Some p"
  shows "(status (fst (CustomerVerify d s (Some u) v)) = 200 \<longleftrightarrow>
            parseInt d v = Some (otp p) \<and> now d \<le> otpExpiry p)
       \<and> (parseInt d v = Some (otp p) \<and> now d \<le> otpExpiry p \<longrightarrow>
            fst (CustomerVerify d s (Some u) v) =
              respond 200 (Session (GenerateSignature d
                \<lparr>user_id = user_id u, user_email = email p, user_verified = True\<rparr>) True (email p))
            \<and> findById (customers (snd (CustomerVerify d s (Some u) v))) (user_id u) =
                Some (p\<lparr>verified := True\<rparr>))
       \<and> (\<not> (parseInt d v = Some (otp p) \<and> now d \<le> otpExpiry p) \<longrightarrow>
            CustomerVerify d s (Some u) v =
              (respond 400 (Message ''OPT verification failed!''), s)
            \<and> (\<not> verified p \<longrightarrow>
                 map_option verified
                   (findById (customers (snd (CustomerVerify d s (Some u) v))) (user_id u)) =
                 Some False))"
proof -
  from assms have id: "customer_id p = user_id u" by (rule findById_Some_id)
  show ?thesis
    using assms id
    by (auto simp: CustomerVerify_def save_def respond_def findById_replace)
qed

text \<open>The customer of the example verifies with the code sent, in time (200), and with the
  same code after the expiry (400, nothing changed, the flag still false).\<close>

theorem CustomerVerify_decision_witness:
  "findById (customers state_a) (user_id user_a) = Some customer_a
   \<and> status (fst (CustomerVerify (sample_deps 1000) state_a (Some user_a) (Str ''123456''))) = 200
   \<and> findById (customers (snd (CustomerVerify (sample_deps 1000) state_a (Some user_a)
         (Str ''123456'')))) (user_id user_a) = Some (customer_a\<lparr>verified := True\<rparr>)
   \<and> CustomerVerify (sample_deps 1800001) state_a (Some user_a) (Str ''123456'') =
       (respond 400 (Message ''OPT verification failed!''), state_a)
   \<and> map_option verified (findById (customers (snd (CustomerVerify (sample_deps 1800001)
         state_a (Some user_a) (Str ''123456'')))) (user_id user_a)) = Some False"
proof -
  have h: "findById (customers state_a) (user_id user_a) = Some customer_a"
    by (simp add: sample_simps eval_simps)
  have p: "parseInt (sample_deps 1000) (Str ''123456'') = Some (otp customer_a)"
    by (simp add: sample_simps eval_simps)
  have t1: "now (sample_deps 1000) \<le> otpExpiry customer_a"
    by (simp add: sample_simps)
  have t2: "\<not> now (sample_deps 1800001) \<le> otpExpiry customer_a"
    by (simp add: sample_simps)
  have f: "\<not> verified customer_a"
    by (simp add: sample_simps)
  from CustomerVerify_decision [OF h, of "sample_deps 1000" "Str ''123456''"] p t1
  have a: "status (fst (CustomerVerify (sample_deps 1000) state_a (Some user_a) (Str ''123456''))) = 200
     \<and> findById (customers (snd (CustomerVerify (sample_deps 1000) state_a (Some user_a)
         (Str ''123456'')))) (user_id user_a) = Some (customer_a\<lparr>verified := True\<rparr>)"
    by blast
  from CustomerVerify_decision [OF h, of "sample_deps 1800001" "Str ''123456''"] t2 f
  have b: "CustomerVerify (sample_deps 1800001) state_a (Some user_a) (Str ''123456'') =
       (respond 400 (Message ''OPT verification failed!''), state_a)
     \<and> map_option verified (findById (customers (snd (CustomerVerify (sample_deps 1800001)
         state_a (Some user_a) (Str ''123456'')))) (user_id user_a)) = Some False"
    by blast
  from h a b show ?thesis by blast
qed

subsection \<open>CustomerSignUp with an email in use\<close>

text \<open>
  Claim C2, as the handler has it. For every signup request whose lowercased email already
  belongs to a Customer record, CustomerSignUp answers 400 and leaves the state as it was
  (no record is created, no message is sent). The body of the answer is the message
  \<^verbatim>\<open>This email address is already in use!\<close> when the request passes the shape
  validation, and the list of field errors when it does not: the validation comes first.
\<close>

theorem CustomerSignUp_existing_email:
  assumes "findOne (customers s) (toLowerCase d (new_email b)) = Some c"
  shows "status (fst (CustomerSignUp d s b)) = 400
       \<and> snd (CustomerSignUp d s b) = s
       \<and> (validate_CreateCustomerInput d b = [] \<longrightarrow>
            body (fst (CustomerSignUp d s b)) = Message ''This email address is already in use!'')
       \<and> (validate_CreateCustomerInput d b \<noteq> [] \<longrightarrow>
            body (fst (CustomerSignUp d s b)) = Errors (validate_CreateCustomerInput d b))"
  using assms by (simp add: CustomerSignUp_def respond_def Let_def)

text \<open>The second signup of the example, with \<^verbatim>\<open>a@X.com\<close> after \<^verbatim>\<open>A@x.com\<close>.\<close>

theorem CustomerSignUp_existing_email_witness:
  "findOne (customers state_a) (toLowerCase (sample_deps 1000) (new_email signup_a_again)) = Some customer_a
   \<and> validate_CreateCustomerInput (sample_deps 1000) signup_a_again = []
   \<and> status (fst (CustomerSignUp (sample_deps 1000) state_a signup_a_again)) = 400
   \<and> snd (CustomerSignUp (sample_deps 1000) state_a signup_a_again) = state_a
   \<and> body (fst (CustomerSignUp (sample_deps 1000) state_a signup_a_again)) =
       Message ''This email address is already in use!''"
proof -
  have h: "findOne (customers state_a) (toLowerCase (sample_deps 1000) (new_email signup_a_again)) = Some customer_a"
    by (simp add: signup_a_again_def sample_simps eval_simps)
  have v: "validate_CreateCustomerInput (sample_deps 1000) signup_a_again = []"
    by (simp add: signup_a_again_def sample_simps)
  from CustomerSignUp_existing_email [OF h] h v show ?thesis
    by blast
qed

text \<open>
  The claim as written promises the conflict message to every signup request with an email
  in use. The same request with an empty password is answered with the field errors.
\<close>

theorem CustomerSignUp_conflict_counterexample:
  "findOne (customers state_a)
     (toLowerCase (sample_deps 1000) (new_email (signup_a_again\<lparr>new_password := []\<rparr>))) = Some customer_a
   \<and> fst (CustomerSignUp (sample_deps 1000) state_a (signup_a_again\<lparr>new_password := []\<rparr>)) =
       respond 400 (Errors [''password should not be empty''])
   \<and> body (fst (CustomerSignUp (sample_deps 1000) state_a (signup_a_again\<lparr>new_password := []\<rparr>)))
       \<noteq> Message ''This email address is already in use!''"
  by (simp add: CustomerSignUp_def signup_a_again_def sample_simps eval_simps)

subsection \<open>CustomerLogin\<close>

text \<open>
  Claim C3, as the handler has it. For every login request that passes the shape
  validation: the record is looked up by the email exactly as submitted (no record is found
  if and only if no stored email equals it, and a record found has that very email); if no
  record is found, or the password check on the record found fails, the answer is 400 with
  the one message \<^verbatim>\<open>Invalid credentials!\<close>; if the record is found and the password
  check succeeds, the answer is 200 with the token signed for the stored record's id, email
  and verified flag, next to that email and flag. The state is unchanged in both cases.
\<close>

theorem CustomerLogin_outcome:
  assumes "validate_CustomerLoginInput d b = []"
  shows "(findOne (customers s) (login_email b) = None \<longleftrightarrow>
            (\<forall>c \<in> set (customers s). email c \<noteq> login_email b))
       \<and> (findOne (customers s) (login_email b) = Some c \<longrightarrow> email c = login_email b)
       \<and> (findOne (customers s) (login_email b) = None
            \<or> (findOne (customers s) (login_email b) = Some c
                \<and> \<not> ValidatePassword d (login_password b) (password c)) \<longrightarrow>
            CustomerLogin d s b = (respond 400 (Message ''Invalid credentials!''), s))
       \<and> (findOne (customers s) (login_email b) = Some c
            \<and> ValidatePassword d (login_password b) (password c) \<longrightarrow>
            CustomerLogin d s b =
              (respond 200 (Session (GenerateSignature d
                 \<lparr>user_id = customer_id c, user_email = email c, user_verified = verified c\<rparr>)
                 (verified c) (email c)), s))"
proof -
  have a: "findOne (customers s) (login_email b) = None \<longleftrightarrow>
            (\<forall>c \<in> set (customers s). email c \<noteq> login_email b)"
    by (auto simp: findOne_def find_None_iff)
  have b: "findOne (customers s) (login_email b) = Some c \<longrightarrow> email c = login_email b"
    by (auto simp: findOne_def find_Some_iff)
  have c: "findOne (customers s) (login_email b) = None
            \<or> (findOne (customers s) (login_email b) = Some c
                \<and> \<not> ValidatePassword d (login_password b) (password c)) \<longrightarrow>
            CustomerLogin d s b = (respond 400 (Message ''Invalid credentials!''), s)"
    using assms by (auto simp: CustomerLogin_def)
  have d: "findOne (customers s) (login_email b) = Some c
            \<and> ValidatePassword d (login_password b) (password c) \<longrightarrow>
            CustomerLogin d s b =
              (respond 200 (Session (GenerateSignature d
                 \<lparr>user_id = customer_id c, user_email = email c, user_verified = verified c\<rparr>)
                 (verified c) (email c)), s)"
    using assms by (auto simp: CustomerLogin_def)
  from a b c d show ?thesis by blast
qed

text \<open>The customer of the example logs in with the stored email \<^verbatim>\<open>a@x.com\<close>, and is
  refused with \<^verbatim>\<open>A@x.com\<close>, the spelling used at signup.\<close>

theorem CustomerLogin_outcome_witness:
  "validate_CustomerLoginInput (sample_deps 1000) \<lparr>login_email = ''a@x.com'', login_password = ''pw''\<rparr> = []
   \<and> findOne (customers state_a) ''a@x.com'' = Some customer_a
   \<and> CustomerLogin (sample_deps 1000) state_a \<lparr>login_email = ''a@x.com'', login_password = ''pw''\<rparr> =
       (respond 200 (Session ''jwt/1/a@x.com/0'' False ''a@x.com''), state_a)
   \<and> validate_CustomerLoginInput (sample_deps 1000) \<lparr>login_email = ''A@x.com'', login_password = ''pw''\<rparr> = []
   \<and> findOne (customers state_a) ''A@x.com'' = None
   \<and> CustomerLogin (sample_deps 1000) state_a \<lparr>login_email = ''A@x.com'', login_password = ''pw''\<rparr> =
       (respond 400 (Message ''Invalid credentials!''), state_a)"
proof -
  let ?b1 = "\<lparr>login_email = ''a@x.com'', login_password = ''pw''\<rparr>"
  let ?b2 = "\<lparr>login_email = ''A@x.com'', login_password = ''pw''\<rparr>"
  have v1: "validate_CustomerLoginInput (sample_deps 1000) ?b1 = []"
    by (simp add: sample_simps)
  have v2: "validate_CustomerLoginInput (sample_deps 1000) ?b2 = []"
    by (simp add: sample_simps)
  have f1: "findOne (customers state_a) (login_email ?b1) = Some customer_a"
    by (simp add: sample_simps eval_simps)
  have f2: "findOne (customers state_a) (login_email ?b2) = None"
    by (simp add: sample_simps eval_simps)
  have p1: "ValidatePassword (sample_deps 1000) (login_password ?b1) (password customer_a)"
    by (simp add: sample_simps)
  have r1: "CustomerLogin (sample_deps 1000) state_a ?b1 =
       (respond 200 (Session (GenerateSignature (sample_deps 1000)
                 \<lparr>user_id = customer_id customer_a, user_email = email customer_a,
                  user_verified = verified customer_a\<rparr>)
                 (verified customer_a) (email customer_a)), state_a)"
    using CustomerLogin_outcome [OF v1, of state_a customer_a] f1 p1 by blast
  have e1: "respond 200 (Session (GenerateSignature (sample_deps 1000)
                 \<lparr>user_id = customer_id customer_a, user_email = email customer_a,
                  user_verified = verified customer_a\<rparr>)
                 (verified customer_a) (email customer_a)) =
            respond 200 (Session ''jwt/1/a@x.com/0'' False ''a@x.com'')"
    by (simp add: sample_simps eval_simps)
  have r2: "CustomerLogin (sample_deps 1000) state_a ?b2 =
       (respond 400 (Message ''Invalid credentials!''), state_a)"
    using CustomerLogin_outcome [OF v2, of state_a customer_a] f2 by blast
  from v1 v2 f1 f2 r1 r2 e1 show ?thesis by simp
qed

text \<open>
  The claim as written promises the generic message to every login with an unknown email.
  A login whose email is not an email address matches no record and is answered with the
  field errors.
\<close>

theorem CustomerLogin_generic_counterexample:
  "findOne (customers state_a) (login_email \<lparr>login_email = ''nobody'', login_password = ''pw''\<rparr>) = None
   \<and> CustomerLogin (sample_deps 1000) state_a \<lparr>login_email = ''nobody'', login_password = ''pw''\<rparr> =
       (respond 400 (Errors [''email must be an email'']), state_a)
   \<and> body (fst (CustomerLogin (sample_deps 1000) state_a
         \<lparr>login_email = ''nobody'', login_password = ''pw''\<rparr>)) \<noteq> Message ''Invalid credentials!''"
  by (simp add: CustomerLogin_def sample_simps eval_simps)

text \<open>A login that fails the shape validation is answered with the field errors,
  whatever the credentials.\<close>

lemma CustomerLogin_invalid:
  "validate_CustomerLoginInput d b \<noteq> [] \<Longrightarrow>
     CustomerLogin d s b = (respond 400 (Errors (validate_CustomerLoginInput d b)), s)"
  by (simp add: CustomerLogin_def Let_def)

subsection \<open>CustomerSignUp with a fresh email\<close>

text \<open>
  Claim C5, as the handler has it. For every signup input that passes the shape validation
  and whose lowercased email belongs to no record: when the creation of the record
  succeeds, CustomerSignUp adds one Customer record, under an identity not in use before,
  whose email is the lowercased input email, with verified false, empty firstName, lastName
  and address, lat 0 and lng 0, the password hashed with the generated salt, and the
  generated otp and otpExpiry; it sends that otp to the phone given, and answers 201 with
  the token signed for the new record, its email and its verified flag. When the creation
  does not succeed it answers 400 with the message \<^verbatim>\<open>Error while signing up!\<close>, and
  nothing is stored or sent.
\<close>

theorem CustomerSignUp_creates:
  assumes "validate_CreateCustomerInput d b = []"
    and "findOne (customers s) (toLowerCase d (new_email b)) = None"
  shows "(create_succeeds d \<longrightarrow>
           CustomerSignUp d s b =
             (respond 201 (Session (GenerateSignature d
              \<lparr>user_id = fresh_id (customers s), user_email = toLowerCase d (new_email b),
               user_verified = False\<rparr>) False (toLowerCase d (new_email b))),
            s\<lparr>customers := customers s @
                 [\<lparr>customer_id = fresh_id (customers s), email = toLowerCase d (new_email b),
                   password = GeneratePassword d (new_password b) (GenerateSalt d),
                   salt = GenerateSalt d, phone = new_phone b,
                   otp = fst (GenerateOtp d), otpExpiry = snd (GenerateOtp d), verified = False,
                   firstName = [], lastName = [], address = [], lat = 0, lng = 0\<rparr>],
               outbox := outbox s @ [(fst (GenerateOtp d), new_phone b)]\<rparr>)
           \<and> findById (customers s) (fresh_id (customers s)) = None
           \<and> findById (customers (snd (CustomerSignUp d s b))) (fresh_id (customers s)) =
               Some \<lparr>customer_id = fresh_id (customers s), email = toLowerCase d (new_email b),
                   password = GeneratePassword d (new_password b) (GenerateSalt d),
                   salt = GenerateSalt d, phone = new_phone b,
                   otp = fst (GenerateOtp d), otpExpiry = snd (GenerateOtp d), verified = False,
                   firstName = [], lastName = [], address = [], lat = 0, lng = 0\<rparr>)
       \<and> (\<not> create_succeeds d \<longrightarrow>
           CustomerSignUp d s b = (respond 400 (Message ''Error while signing up!''), s))"
proof -
  have r: "CustomerSignUp d s b =
             (respond 201 (Session (GenerateSignature d
              \<lparr>user_id = fresh_id (customers s), user_email = toLowerCase d (new_email b),
               user_verified = False\<rparr>) False (toLowerCase d (new_email b))),
            s\<lparr>customers := customers s @
                 [\<lparr>customer_id = fresh_id (customers s), email = toLowerCase d (new_email b),
                   password = GeneratePassword d (new_password b) (GenerateSalt d),
                   salt = GenerateSalt d, phone = new_phone b,
                   otp = fst (GenerateOtp d), otpExpiry = snd (GenerateOtp d), verified = False,
                   firstName = [], lastName = [], address = [], lat = 0, lng = 0\<rparr>],
               outbox := outbox s @ [(fst (GenerateOtp d), new_phone b)]\<rparr>)"
    if "create_succeeds d"
    using assms that
    by (simp add: CustomerSignUp_def create_def SendOtp_def Let_def split: prod.splits)
  have f: "findById (customers s) (fresh_id (customers s)) = None"
    by (rule findById_fresh_id)
  have g: "findById (customers (snd (CustomerSignUp d s b))) (fresh_id (customers s)) =
               Some \<lparr>customer_id = fresh_id (customers s), email = toLowerCase d (new_email b),
                   password = GeneratePassword d (new_password b) (GenerateSalt d),
                   salt = GenerateSalt d, phone = new_phone b,
                   otp = fst (GenerateOtp d), otpExpiry = snd (GenerateOtp d), verified = False,
                   firstName = [], lastName = [], address = [], lat = 0, lng = 0\<rparr>"
    if ok: "create_succeeds d"
    unfolding r [OF ok] using f by (simp add: findById_append)
  have n: "CustomerSignUp d s b = (respond 400 (Message ''Error while signing up!''), s)"
    if "\<not> create_succeeds d"
    using assms that
    by (simp add: CustomerSignUp_def create_def Let_def split: prod.splits)
  from r f g n show ?thesis by blast
qed

text \<open>The signup of the example: \<^verbatim>\<open>A@x.com\<close> is stored as \<^verbatim>\<open>a@x.com\<close>.\<close>

theorem CustomerSignUp_creates_witness:
  "validate_CreateCustomerInput (sample_deps 1000) signup_A = []
   \<and> findOne (customers empty_state) (toLowerCase (sample_deps 1000) (new_email signup_A)) = None
   \<and> create_succeeds (sample_deps 1000)
   \<and> CustomerSignUp (sample_deps 1000) empty_state signup_A =
       (respond 201 (Session ''jwt/1/a@x.com/0'' False ''a@x.com''), state_a)"
proof -
  have v: "validate_CreateCustomerInput (sample_deps 1000) signup_A = []"
    by (simp add: sample_simps)
  have f: "findOne (customers empty_state) (toLowerCase (sample_deps 1000) (new_email signup_A)) = None"
    by (simp add: sample_simps eval_simps)
  have c: "create_succeeds (sample_deps 1000)"
    by (simp add: sample_simps)
  from CustomerSignUp_creates [OF v f] c
  have "CustomerSignUp (sample_deps 1000) empty_state signup_A =
       (respond 201 (Session (GenerateSignature (sample_deps 1000)
              \<lparr>user_id = fresh_id (customers empty_state),
               user_email = toLowerCase (sample_deps 1000) (new_email signup_A),
               user_verified = False\<rparr>) False (toLowerCase (sample_deps 1000) (new_email signup_A))),
            empty_state\<lparr>customers := customers empty_state @
                 [\<lparr>customer_id = fresh_id (customers empty_state),
                   email = toLowerCase (sample_deps 1000) (new_email signup_A),
                   password = GeneratePassword (sample_deps 1000) (new_password signup_A)
                     (GenerateSalt (sample_deps 1000)),
                   salt = GenerateSalt (sample_deps 1000), phone = new_phone signup_A,
                   otp = fst (GenerateOtp (sample_deps 1000)),
                   otpExpiry = snd (GenerateOtp (sample_deps 1000)), verified = False,
                   firstName = [], lastName = [], address = [], lat = 0, lng = 0\<rparr>],
               outbox := outbox empty_state @
                 [(fst (GenerateOtp (sample_deps 1000)), new_phone signup_A)]\<rparr>)"
    by blast
  with v f c show ?thesis
    by (simp add: sample_simps eval_simps)
qed

text \<open>
  The claim as written has a record created and 201 answered for every valid signup with a
  fresh email. The signup of the example, served by a store whose creation does not
  succeed, is answered with 400 and no record exists afterwards.
\<close>

theorem CustomerSignUp_creation_counterexample:
  "validate_CreateCustomerInput (sample_deps 1000\<lparr>create_succeeds := False\<rparr>) signup_A = []
   \<and> findOne (customers empty_state)
       (toLowerCase (sample_deps 1000\<lparr>create_succeeds := False\<rparr>) (new_email signup_A)) = None
   \<and> CustomerSignUp (sample_deps 1000\<lparr>create_succeeds := False\<rparr>) empty_state signup_A =
       (respond 400 (Message ''Error while signing up!''), empty_state)
   \<and> customers (snd (CustomerSignUp (sample_deps 1000\<lparr>create_succeeds := False\<rparr>)
        empty_state signup_A)) = []"
  by (simp add: CustomerSignUp_def sample_simps eval_simps)

subsection \<open>UpdateCustomerProfile\<close>

text \<open>
  Claim C6. For every authenticated caller whose profile \<open>p\<close> exists and every body that
  passes the shape validation, UpdateCustomerProfile writes the three submitted values over
  firstName, lastName and address, whatever they are and whatever was stored (nothing is
  merged), stores the record, and answers 200 with the updated record.
\<close>

theorem UpdateCustomerProfile_overwrites:
  assumes "findById (customers s) (user_id u) = Some p"
    and "validate_CustomerEditInput d b = []"
  shows "fst (UpdateCustomerProfile d s (Some u) b) =
           respond 200 (Profile (p\<lparr>firstName := edit_firstName b, lastName := edit_lastName b,
                                    address := edit_address b\<rparr>))
       \<and> findById (customers (snd (UpdateCustomerProfile d s (Some u) b))) (user_id u) =
           Some (p\<lparr>firstName := edit_firstName b, lastName := edit_lastName b,
                    address := edit_address b\<rparr>)
       \<and> outbox (snd (UpdateCustomerProfile d s (Some u) b)) = outbox s"
proof -
  from assms(1) have id: "customer_id p = user_id u" by (rule findById_Some_id)
  show ?thesis
    using assms id
    by (simp add: UpdateCustomerProfile_def save_def findById_replace)
qed

text \<open>A profile with a name and an address, updated with an empty last name and an empty
  address: both are empty afterwards.\<close>

theorem UpdateCustomerProfile_overwrites_witness:
  "findById [customer_a\<lparr>firstName := ''Ann'', lastName := ''Lee'', address := ''1 Main St''\<rparr>]
     (user_id user_a) =
       Some (customer_a\<lparr>firstName := ''Ann'', lastName := ''Lee'', address := ''1 Main St''\<rparr>)
   \<and> validate_CustomerEditInput (sample_deps 3000)
        \<lparr>edit_firstName = ''Bo'', edit_lastName = [], edit_address = []\<rparr> = []
   \<and> fst (UpdateCustomerProfile (sample_deps 3000)
        \<lparr>customers = [customer_a\<lparr>firstName := ''Ann'', lastName := ''Lee'',
                        address := ''1 Main St''\<rparr>], outbox = []\<rparr> (Some user_a)
        \<lparr>edit_firstName = ''Bo'', edit_lastName = [], edit_address = []\<rparr>) =
       respond 200 (Profile (customer_a\<lparr>firstName := ''Bo''\<rparr>))
   \<and> findById (customers (snd (UpdateCustomerProfile (sample_deps 3000)
        \<lparr>customers = [customer_a\<lparr>firstName := ''Ann'', lastName := ''Lee'',
                        address := ''1 Main St''\<rparr>], outbox = []\<rparr> (Some user_a)
        \<lparr>edit_firstName = ''Bo'', edit_lastName = [], edit_address = []\<rparr>))) (user_id user_a) =
       Some (customer_a\<lparr>firstName := ''Bo''\<rparr>)"
proof -
  let ?p = "customer_a\<lparr>firstName := ''Ann'', lastName := ''Lee'', address := ''1 Main St''\<rparr>"
  let ?s = "\<lparr>customers = [?p], outbox = []\<rparr>"
  let ?b = "\<lparr>edit_firstName = ''Bo'', edit_lastName = [], edit_address = []\<rparr>"
  have h: "findById (customers ?s) (user_id user_a) = Some ?p"
    by (simp add: sample_simps eval_simps)
  have v: "validate_CustomerEditInput (sample_deps 3000) ?b = []"
    by (simp add: sample_simps)
  have e: "?p\<lparr>firstName := edit_firstName ?b, lastName := edit_lastName ?b,
             address := edit_address ?b\<rparr> = customer_a\<lparr>firstName := ''Bo''\<rparr>"
    by (simp add: sample_simps)
  from UpdateCustomerProfile_overwrites [OF h v] h v e show ?thesis
    by simp
qed

subsection \<open>What a successful CustomerVerify changes\<close>

text \<open>
  Claim C7. A successful CustomerVerify changes only the verified field of the caller's
  record: the record stored afterwards is the one before with verified true, so its otp and
  otpExpiry are the stored ones; every other record, the number of records and the messages
  sent are as before. So a second call by the same customer with the same code, parsed by
  the same \<open>parseInt\<close>, at a time \<open>now d'\<close> still not after the expiry, is answered
  with 200 too.
\<close>

theorem CustomerVerify_frame:
  assumes "findById (customers s) (user_id u) = Some p"
    and "parseInt d v = Some (otp p)"
    and "now d \<le> otpExpiry p"
    and "user_id u' = user_id u"
    and "parseInt d' = parseInt d"
    and "now d' \<le> otpExpiry p"
  shows "findById (customers (snd (CustomerVerify d s (Some u) v))) (user_id u) =
           Some (p\<lparr>verified := True\<rparr>)
       \<and> map_option otp (findById (customers (snd (CustomerVerify d s (Some u) v))) (user_id u)) =
           Some (otp p)
       \<and> map_option otpExpiry
             (findById (customers (snd (CustomerVerify d s (Some u) v))) (user_id u)) =
           Some (otpExpiry p)
       \<and> (j \<noteq> user_id u \<longrightarrow>
            findById (customers (snd (CustomerVerify d s (Some u) v))) j =
              findById (customers s) j)
       \<and> length (customers (snd (CustomerVerify d s (Some u) v))) = length (customers s)
       \<and> outbox (snd (CustomerVerify d s (Some u) v)) = outbox s
       \<and> status (fst (CustomerVerify d s (Some u) v)) = 200
       \<and> status (fst (CustomerVerify d' (snd (CustomerVerify d s (Some u) v)) (Some u') v)) = 200"
proof -
  from assms(1) have id: "customer_id p = user_id u" by (rule findById_Some_id)
  have len: "length (replace cs q) = length cs" for cs q
    by (induction cs) auto
  have s1: "snd (CustomerVerify d s (Some u) v) =
              s\<lparr>customers := replace (customers s) (p\<lparr>verified := True\<rparr>)\<rparr>"
    using assms(1-3) by (simp add: CustomerVerify_def save_def)
  have st: "status (fst (CustomerVerify d s (Some u) v)) = 200"
    using assms(1-3) by (simp add: CustomerVerify_def save_def respond_def)
  have f: "findById (replace (customers s) (p\<lparr>verified := True\<rparr>)) (user_id u) =
             Some (p\<lparr>verified := True\<rparr>)"
    using assms(1) id by (simp add: findById_replace)
  have g: "j \<noteq> user_id u \<longrightarrow>
             findById (replace (customers s) (p\<lparr>verified := True\<rparr>)) j = findById (customers s) j"
    using id by (simp add: findById_replace)
  have again: "status (fst (CustomerVerify d' (s\<lparr>customers := replace (customers s)
                  (p\<lparr>verified := True\<rparr>)\<rparr>) (Some u') v)) = 200"
    using f assms(2,4,5,6) by (simp add: CustomerVerify_def save_def respond_def)
  show ?thesis
    unfolding s1 using f g st again by (simp add: len)
qed

text \<open>The customer of the example verifies at time 1000 and again at time 2000.\<close>

theorem CustomerVerify_frame_witness:
  "findById (customers state_a) (user_id user_a) = Some customer_a
   \<and> parseInt (sample_deps 1000) (Str ''123456'') = Some (otp customer_a)
   \<and> now (sample_deps 1000) \<le> otpExpiry customer_a
   \<and> now (sample_deps 2000) \<le> otpExpiry customer_a
   \<and> parseInt (sample_deps 2000) = parseInt (sample_deps 1000)
   \<and> findById (customers (snd (CustomerVerify (sample_deps 1000) state_a (Some user_a)
        (Str ''123456'')))) (user_id user_a) = Some (customer_a\<lparr>verified := True\<rparr>)
   \<and> status (fst (CustomerVerify (sample_deps 2000)
        (snd (CustomerVerify (sample_deps 1000) state_a (Some user_a) (Str ''123456'')))
        (Some (user_a\<lparr>user_verified := True\<rparr>)) (Str ''123456''))) = 200"
proof -
  have h: "findById (customers state_a) (user_id user_a) = Some customer_a"
    by (simp add: sample_simps eval_simps)
  have p: "parseInt (sample_deps 1000) (Str ''123456'') = Some (otp customer_a)"
    by (simp add: sample_simps eval_simps)
  have t1: "now (sample_deps 1000) \<le> otpExpiry customer_a"
    by (simp add: sample_simps)
  have t2: "now (sample_deps 2000) \<le> otpExpiry customer_a"
    by (simp add: sample_simps)
  have u: "user_id (user_a\<lparr>user_verified := True\<rparr>) = user_id user_a"
    by simp
  have q: "parseInt (sample_deps 2000) = parseInt (sample_deps 1000)"
    by (simp add: sample_simps)
  from CustomerVerify_frame [OF h p t1 u q t2] h p t1 t2 q show ?thesis
    by blast
qed

subsection \<open>RequestOtp\<close>

text \<open>
  Claim C8. For every authenticated caller whose profile \<open>p\<close> exists, RequestOtp takes a
  new otp and otpExpiry from the generator, stores both on the profile (nothing else of it
  changes), sends the new otp to the profile's phone, and answers 200 with the message
  \<^verbatim>\<open>OTP sent to your registered phone number.\<close>. If there is no authenticated caller,
  or no record under the caller's id, it answers 400 with the message
  \<^verbatim>\<open>Error generateing OTP!\<close> and the state is unchanged: nothing stored, nothing sent.
\<close>

theorem RequestOtp_outcome:
  "(findById (customers s) (user_id u) = Some p \<longrightarrow>
      RequestOtp d s (Some u) =
        (respond 200 (Message ''OTP sent to your registered phone number.''),
         \<lparr>customers = replace (customers s)
                          (p\<lparr>otp := fst (GenerateOtp d), otpExpiry := snd (GenerateOtp d)\<rparr>),
          outbox = outbox s @ [(fst (GenerateOtp d), phone p)]\<rparr>)
      \<and> findById (customers (snd (RequestOtp d s (Some u)))) (user_id u) =
          Some (p\<lparr>otp := fst (GenerateOtp d), otpExpiry := snd (GenerateOtp d)\<rparr>))
   \<and> (findById (customers s) (user_id u) = None \<longrightarrow>
        RequestOtp d s (Some u) = (respond 400 (Message ''Error generateing OTP!''), s))
   \<and> RequestOtp d s None = (respond 400 (Message ''Error generateing OTP!''), s)"
proof -
  have a: "RequestOtp d s (Some u) =
        (respond 200 (Message ''OTP sent to your registered phone number.''),
         \<lparr>customers = replace (customers s)
                          (p\<lparr>otp := fst (GenerateOtp d), otpExpiry := snd (GenerateOtp d)\<rparr>),
          outbox = outbox s @ [(fst (GenerateOtp d), phone p)]\<rparr>)"
    if "findById (customers s) (user_id u) = Some p"
    using that by (simp add: RequestOtp_def save_def SendOtp_def Let_def split: prod.splits)
  have b: "findById (customers (snd (RequestOtp d s (Some u)))) (user_id u) =
          Some (p\<lparr>otp := fst (GenerateOtp d), otpExpiry := snd (GenerateOtp d)\<rparr>)"
    if h: "findById (customers s) (user_id u) = Some p"
  proof -
    from h have id: "customer_id p = user_id u" by (rule findById_Some_id)
    show ?thesis unfolding a [OF h] using h id by (simp add: findById_replace)
  qed
  have c: "RequestOtp d s (Some u) = (respond 400 (Message ''Error generateing OTP!''), s)"
    if "findById (customers s) (user_id u) = None"
    using that by (simp add: RequestOtp_def)
  have e: "RequestOtp d s None = (respond 400 (Message ''Error generateing OTP!''), s)"
    by (simp add: RequestOtp_def)
  from a b c e show ?thesis by blast
qed

text \<open>The customer of the example asks for a new code and gets 654321 by SMS; the same
  request on the empty collection is refused.\<close>

theorem RequestOtp_outcome_witness:
  "findById (customers state_a) (user_id user_a) = Some customer_a
   \<and> RequestOtp (sample_deps 5000\<lparr>GenerateOtp := (654321, 1805000)\<rparr>) state_a (Some user_a) =
       (respond 200 (Message ''OTP sent to your registered phone number.''),
        \<lparr>customers = [customer_a\<lparr>otp := 654321, otpExpiry := 1805000\<rparr>],
         outbox = [(123456, ''555''), (654321, ''555'')]\<rparr>)
   \<and> findById (customers empty_state) (user_id user_a) = None
   \<and> RequestOtp (sample_deps 5000) empty_state (Some user_a) =
       (respond 400 (Message ''Error generateing OTP!''), empty_state)"
proof -
  let ?d = "sample_deps 5000\<lparr>GenerateOtp := (654321, 1805000)\<rparr>"
  have h: "findById (customers state_a) (user_id user_a) = Some customer_a"
    by (simp add: sample_simps eval_simps)
  have n: "findById (customers empty_state) (user_id user_a) = None"
    by (simp add: sample_simps eval_simps)
  have e: "\<lparr>customers = replace (customers state_a)
                          (customer_a\<lparr>otp := fst (GenerateOtp ?d), otpExpiry := snd (GenerateOtp ?d)\<rparr>),
          outbox = outbox state_a @ [(fst (GenerateOtp ?d), phone customer_a)]\<rparr> =
        \<lparr>customers = [customer_a\<lparr>otp := 654321, otpExpiry := 1805000\<rparr>],
         outbox = [(123456, ''555''), (654321, ''555'')]\<rparr>"
    by (simp add: sample_simps)
  have r1: "RequestOtp ?d state_a (Some user_a) =
       (respond 200 (Message ''OTP sent to your registered phone number.''),
        \<lparr>customers = [customer_a\<lparr>otp := 654321, otpExpiry := 1805000\<rparr>],
         outbox = [(123456, ''555''), (654321, ''555'')]\<rparr>)"
    using RequestOtp_outcome [of state_a user_a customer_a ?d] h unfolding e by blast
  have r2: "RequestOtp (sample_deps 5000) empty_state (Some user_a) =
       (respond 400 (Message ''Error generateing OTP!''), empty_state)"
    using RequestOtp_outcome [of empty_state user_a customer_a "sample_deps 5000"] n by blast
  from h n r1 r2 show ?thesis by blast
qed

subsection \<open>UpdateCustomerProfile looks the profile up first\<close>

text \<open>
  Claim C9. UpdateCustomerProfile looks the profile up before it validates the body: for
  every authenticated caller under whose id no record is found, the answer is 400 with the
  message \<^verbatim>\<open>Error updating profile!\<close> and the state is unchanged, for every body and
  every validator, so also when the body fails the shape validation; the answer is never
  the list of field errors.
\<close>

theorem UpdateCustomerProfile_lookup_first:
  assumes "findById (customers s) (user_id u) = None"
  shows "UpdateCustomerProfile d s (Some u) b =
           (respond 400 (Message ''Error updating profile!''), s)
       \<and> body (fst (UpdateCustomerProfile d s (Some u) b)) \<noteq>
           Errors (validate_CustomerEditInput d b)"
  using assms by (simp add: UpdateCustomerProfile_def respond_def)

text \<open>A body with an empty first name, which the validator rejects, sent by a caller
  without a record.\<close>

theorem UpdateCustomerProfile_lookup_first_witness:
  "findById (customers empty_state) (user_id user_a) = None
   \<and> validate_CustomerEditInput (sample_deps 1000)
        \<lparr>edit_firstName = [], edit_lastName = [], edit_address = []\<rparr> =
       [''firstName should not be empty'']
   \<and> UpdateCustomerProfile (sample_deps 1000) empty_state (Some user_a)
        \<lparr>edit_firstName = [], edit_lastName = [], edit_address = []\<rparr> =
       (respond 400 (Message ''Error updating profile!''), empty_state)"
proof -
  have n: "findById (customers empty_state) (user_id user_a) = None"
    by (simp add: sample_simps eval_simps)
  have v: "validate_CustomerEditInput (sample_deps 1000)
        \<lparr>edit_firstName = [], edit_lastName = [], edit_address = []\<rparr> =
       [''firstName should not be empty'']"
    by (simp add: sample_simps)
  from UpdateCustomerProfile_lookup_first [OF n] n v show ?thesis by blast
qed

subsection \<open>GetCustomerProfile\<close>

text \<open>
  Claim C10. For every authenticated caller whose profile lookup finds the record \<open>p\<close>,
  GetCustomerProfile answers 200 with \<open>p\<close> itself, all fields as stored, among them the
  password hash, the salt and the otp, and changes nothing. If there is no authenticated
  caller, or the lookup finds no record, it answers 400 with the message
  \<^verbatim>\<open>Error getting user profile!\<close>.
\<close>

theorem GetCustomerProfile_outcome:
  "(findById (customers s) (user_id u) = Some p \<longrightarrow>
      GetCustomerProfile s (Some u) = (respond 200 (Profile p), s)
      \<and> (\<exists>q. body (fst (GetCustomerProfile s (Some u))) = Profile q
              \<and> password q = password p \<and> salt q = salt p \<and> otp q = otp p))
   \<and> (findById (customers s) (user_id u) = None \<longrightarrow>
        GetCustomerProfile s (Some u) = (respond 400 (Message ''Error getting user profile!''), s))
   \<and> GetCustomerProfile s None = (respond 400 (Message ''Error getting user profile!''), s)"
  by (simp add: GetCustomerProfile_def respond_def)

text \<open>The customer of the example reads the profile; the same request on the empty
  collection is refused.\<close>

theorem GetCustomerProfile_outcome_witness:
  "findById (customers state_a) (user_id user_a) = Some customer_a
   \<and> GetCustomerProfile state_a (Some user_a) = (respond 200 (Profile customer_a), state_a)
   \<and> findById (customers empty_state) (user_id user_a) = None
   \<and> GetCustomerProfile empty_state (Some user_a) =
       (respond 400 (Message ''Error getting user profile!''), empty_state)"
proof -
  have h: "findById (customers state_a) (user_id user_a) = Some customer_a"
    by (simp add: sample_simps eval_simps)
  have n: "findById (customers empty_state) (user_id user_a) = None"
    by (simp add: sample_simps eval_simps)
  from GetCustomerProfile_outcome [of state_a user_a customer_a] h
  have r1: "GetCustomerProfile state_a (Some user_a) = (respond 200 (Profile customer_a), state_a)"
    by blast
  from GetCustomerProfile_outcome [of empty_state user_a customer_a] n
  have r2: "GetCustomerProfile empty_state (Some user_a) =
       (respond 400 (Message ''Error getting user profile!''), empty_state)"
    by blast
  from h n r1 r2 show ?thesis by blast
qed

subsection \<open>The verified flag over sequences of requests\<close>

lemma SignUp_keeps_records:
  "findById (customers s) i = Some p \<Longrightarrow>
     findById (customers (snd (CustomerSignUp d s b))) i = Some p"
  by (simp add: CustomerSignUp_def create_def SendOtp_def Let_def findById_append
      split: option.splits prod.splits)

lemma SignUp_new_unverified:
  "findById (customers s) i = None \<Longrightarrow>
     findById (customers (snd (CustomerSignUp d s b))) i = Some p \<Longrightarrow> \<not> verified p"
  by (auto simp: CustomerSignUp_def create_def SendOtp_def Let_def findById_append
      split: option.splits prod.splits if_splits)

lemma Login_state: "snd (CustomerLogin d s b) = s"
  by (simp add: CustomerLogin_def Let_def split: option.splits)

lemma GetProfile_state: "snd (GetCustomerProfile s user) = s"
  by (simp add: GetCustomerProfile_def split: option.splits)

lemma RequestOtp_verified:
  "map_option verified (findById (customers (snd (RequestOtp d s user))) i) =
     map_option verified (findById (customers s) i)"
proof (cases user)
  case None
  then show ?thesis by (simp add: RequestOtp_def)
next
  case (Some u)
  show ?thesis
  proof (cases "findById (customers s) (user_id u)")
    case None
    with Some show ?thesis by (simp add: RequestOtp_def)
  next
    case found: (Some p)
    then have "customer_id p = user_id u" by (rule findById_Some_id)
    with Some found show ?thesis
      by (simp add: RequestOtp_def save_def SendOtp_def Let_def findById_replace
          split: prod.splits)
  qed
qed

lemma Update_verified:
  "map_option verified (findById (customers (snd (UpdateCustomerProfile d s user b))) i) =
     map_option verified (findById (customers s) i)"
proof (cases user)
  case None
  then show ?thesis by (simp add: UpdateCustomerProfile_def)
next
  case (Some u)
  show ?thesis
  proof (cases "findById (customers s) (user_id u)")
    case None
    with Some show ?thesis by (simp add: UpdateCustomerProfile_def)
  next
    case found: (Some p)
    then have "customer_id p = user_id u" by (rule findById_Some_id)
    with Some found show ?thesis
      by (simp add: UpdateCustomerProfile_def save_def Let_def findById_replace)
  qed
qed

lemma Verify_keeps_verified:
  "findById (customers s) i = Some p \<Longrightarrow> verified p \<Longrightarrow>
     \<exists>q. findById (customers (snd (CustomerVerify d s user v))) i = Some q \<and> verified q"
  by (auto simp: CustomerVerify_def save_def findById_replace
      dest: findById_Some_id split: option.splits)

lemma Verify_flip:
  assumes "\<not> is_verified s i" and "is_verified (snd (CustomerVerify d s user v)) i"
  shows "\<exists>u p. user = Some u \<and> user_id u = i \<and> findById (customers s) i = Some p
           \<and> \<not> verified p \<and> parseInt d v = Some (otp p) \<and> now d \<le> otpExpiry p"
proof (cases user)
  case None
  with assms show ?thesis by (simp add: CustomerVerify_def)
next
  case (Some u)
  show ?thesis
  proof (cases "findById (customers s) (user_id u)")
    case None
    with Some assms show ?thesis by (simp add: CustomerVerify_def)
  next
    case found: (Some p)
    then have id: "customer_id p = user_id u" by (rule findById_Some_id)
    show ?thesis
    proof (cases "parseInt d v = Some (otp p) \<and> now d \<le> otpExpiry p")
      case False
      with Some found assms show ?thesis by (auto simp: CustomerVerify_def)
    next
      case True
      with Some found have st: "snd (CustomerVerify d s user v) =
          s\<lparr>customers := replace (customers s) (p\<lparr>verified := True\<rparr>)\<rparr>"
        by (simp add: CustomerVerify_def save_def)
      have "i = user_id u"
      proof (rule ccontr)
        assume "i \<noteq> user_id u"
        with id have "findById (customers (snd (CustomerVerify d s user v))) i =
            findById (customers s) i"
          unfolding st by (simp add: findById_replace)
        with assms show False by (simp add: is_verified_def)
      qed
      moreover from this found assms(1) have "\<not> verified p" by (simp add: is_verified_def)
      ultimately show ?thesis using Some found True by simp
    qed
  qed
qed

lemma is_verified_map:
  "is_verified s i \<longleftrightarrow> map_option verified (findById (customers s) i) = Some True"
  by (auto simp: is_verified_def split: option.splits)

lemma handle_keeps_verified:
  assumes "is_verified s i"
  shows "is_verified (snd (handle d s r)) i"
proof (cases r)
  case (SignUp b)
  with assms SignUp_keeps_records [of s i _ d b] show ?thesis
    by (auto simp: is_verified_def split: option.splits)
next
  case (Login b)
  with assms show ?thesis by (simp add: Login_state)
next
  case (VerifyOtp user v)
  with assms Verify_keeps_verified [of s i _ d user v] show ?thesis
    by (auto simp: is_verified_def split: option.splits)
next
  case (ReqOtp user)
  with assms show ?thesis by (simp add: is_verified_map RequestOtp_verified)
next
  case (GetProfile user)
  with assms show ?thesis by (simp add: GetProfile_state)
next
  case (UpdateProfile user b)
  with assms show ?thesis by (simp add: is_verified_map Update_verified)
qed

lemma handle_flip:
  assumes "\<not> is_verified s i" and "is_verified (snd (handle d s r)) i"
  shows "\<exists>u v p. r = VerifyOtp (Some u) v \<and> user_id u = i
           \<and> findById (customers s) i = Some p \<and> \<not> verified p
           \<and> parseInt d v = Some (otp p) \<and> now d \<le> otpExpiry p"
proof (cases r)
  case (SignUp b)
  show ?thesis
  proof (cases "findById (customers s) i")
    case None
    with assms SignUp SignUp_new_unverified [of s i d b] show ?thesis
      by (auto simp: is_verified_def split: option.splits)
  next
    case (Some p)
    with assms SignUp SignUp_keeps_records [of s i p d b] show ?thesis
      by (auto simp: is_verified_def split: option.splits)
  qed
next
  case (Login b)
  with assms show ?thesis by (simp add: Login_state)
next
  case (VerifyOtp user v)
  with assms Verify_flip [of s i d user v] show ?thesis by auto
next
  case (ReqOtp user)
  with assms show ?thesis by (auto simp: is_verified_map RequestOtp_verified)
next
  case (GetProfile user)
  with assms show ?thesis by (simp add: GetProfile_state)
next
  case (UpdateProfile user b)
  with assms show ?thesis by (auto simp: is_verified_map Update_verified)
qed

lemma run_keeps_verified: "is_verified s i \<Longrightarrow> is_verified (run s rs) i"
proof (induction rs arbitrary: s)
  case Nil
  then show ?case by simp
next
  case (Cons x rs)
  obtain d r where x: "x = (d, r)" by (cases x)
  from Cons.prems have "is_verified (snd (handle d s r)) i" by (rule handle_keeps_verified)
  then have "is_verified (run (snd (handle d s r)) rs) i" by (rule Cons.IH)
  with x show ?case by simp
qed

lemma flips_count:
  "flips i s rs = (if \<not> is_verified s i \<and> is_verified (run s rs) i then 1 else 0)"
proof (induction rs arbitrary: s)
  case Nil
  show ?case by simp
next
  case (Cons x rs)
  obtain d r where x: "x = (d, r)" by (cases x)
  let ?s' = "snd (handle d s r)"
  have IH: "flips i ?s' rs = (if \<not> is_verified ?s' i \<and> is_verified (run ?s' rs) i then 1 else 0)"
    by (rule Cons.IH)
  show ?case
  proof (cases "is_verified s i")
    case True
    then have "is_verified ?s' i" by (rule handle_keeps_verified)
    with True IH x show ?thesis by simp
  next
    case False
    show ?thesis
    proof (cases "is_verified ?s' i")
      case True
      then have "is_verified (run ?s' rs) i" by (rule run_keeps_verified)
      with True False IH x show ?thesis by simp
    next
      case notyet: False
      with False IH x show ?thesis by simp
    qed
  qed
qed

lemmas handler_defs =
  CustomerSignUp_def CustomerLogin_def CustomerVerify_def RequestOtp_def
  GetCustomerProfile_def UpdateCustomerProfile_def

lemma run_sample_requests:
  "run empty_state sample_requests =
     \<lparr>customers = [customer_a\<lparr>otp := 654321, otpExpiry := 1801400, verified := True,
                      firstName := ''Ann'', lastName := ''Lee''\<rparr>],
      outbox = [(123456, ''555''), (654321, ''555'')]\<rparr>"
  by (simp add: sample_requests_def signup_a_again_def handler_defs sample_simps eval_simps)

text \<open>
  Claim C4. Write \<open>is_verified s i\<close> for: the record \<open>i\<close> exists in \<open>s\<close> and its verified
  flag is true. No request (signup, login, verification, code request, profile read,
  profile update) takes the flag of a record from true to false, and after any sequence of
  requests a flag that was true is true. A request that takes the flag of \<open>i\<close> from not set
  to set is a verification by the customer \<open>i\<close>, whose record existed with the flag false,
  with a code that parses to the stored otp, at a time not after the stored otpExpiry. So
  over any sequence of requests the flag of a record goes from not set to set exactly once
  if it is not set at the start and set at the end, and never otherwise.
\<close>

theorem verified_one_way:
  "(is_verified s i \<longrightarrow> is_verified (snd (handle d s r)) i)
   \<and> (is_verified s i \<longrightarrow> is_verified (run s rs) i)
   \<and> (\<not> is_verified s i \<and> is_verified (snd (handle d s r)) i \<longrightarrow>
        (\<exists>u v p. r = VerifyOtp (Some u) v \<and> user_id u = i
           \<and> findById (customers s) i = Some p \<and> \<not> verified p
           \<and> parseInt d v = Some (otp p) \<and> now d \<le> otpExpiry p))
   \<and> flips i s rs = (if \<not> is_verified s i \<and> is_verified (run s rs) i then 1 else 0)
   \<and> flips i s rs \<le> 1"
  using handle_keeps_verified [of s i d r] run_keeps_verified [of s i rs]
    handle_flip [of s i d r] flips_count [of i s rs]
  by auto

text \<open>The sequence of requests of the example: the flag of record 1 is set once, by the
  third request, and stays set through the six that follow.\<close>

theorem verified_one_way_witness:
  "\<not> is_verified empty_state 1
   \<and> is_verified (run empty_state sample_requests) 1
   \<and> flips 1 empty_state sample_requests = 1
   \<and> is_verified state_a_verified 1
   \<and> is_verified (snd (handle (sample_deps 2000) state_a_verified
        (VerifyOtp (Some user_a) (Str ''000000'')))) 1
   \<and> is_verified (run state_a_verified sample_requests) 1"
proof -
  have a: "\<not> is_verified empty_state 1"
    by (simp add: is_verified_def sample_simps eval_simps)
  have b: "is_verified (run empty_state sample_requests) 1"
    unfolding run_sample_requests by (simp add: is_verified_def sample_simps eval_simps)
  have c: "is_verified state_a_verified 1"
    by (simp add: state_a_verified_eq is_verified_def sample_simps eval_simps)
  from verified_one_way [of empty_state 1 "sample_deps 1000" "SignUp signup_A" sample_requests] a b
  have f: "flips 1 empty_state sample_requests = 1" by simp
  from verified_one_way [of state_a_verified 1 "sample_deps 2000"
      "VerifyOtp (Some user_a) (Str ''000000'')" sample_requests] c
  have k: "is_verified (snd (handle (sample_deps 2000) state_a_verified
        (VerifyOtp (Some user_a) (Str ''000000'')))) 1
      \<and> is_verified (run state_a_verified sample_requests) 1"
    by blast
  from a b c f k show ?thesis by blast
qed

end
